theory Spec2Isabelle
  imports Main
begin

section \<open>Query expressions of django/db/models/expressions.py\<close>

text \<open>
  The expression tree of \<^verbatim>\<open>django/db/models/expressions.py\<close>: every class of the
  module is a constructor of \<open>expr\<close>, every attribute a constructor argument, every
  exception a value of \<open>error\<close>.  Methods that assign to attributes return the object
  they were called on next to their result.
\<close>

subsection \<open>Python values, exceptions and model fields\<close>

datatype error =
    FieldError | ValueError | TypeError | AttributeError | AssertionError
  | NotImplementedError | KeyError | EmptyResultSet | NotSupportedError | RecursionError

datatype pyval = PNone | PBool bool | PInt int | PStr string | PTimedelta int

text \<open>
  A model field instance (\<^verbatim>\<open>django.db.models.fields\<close>): its class, the proper
  ancestors of that class, what \<^verbatim>\<open>get_internal_type()\<close> returns, its column, and
  whether it has a \<^verbatim>\<open>get_placeholder\<close> attribute.
\<close>

record dbfield =
  f_class :: string
  f_bases :: "string list"
  f_internal_type :: string
  f_column :: string
  f_has_placeholder :: bool

definition isinstance :: "dbfield \<Rightarrow> string \<Rightarrow> bool" where
  "isinstance f c \<longleftrightarrow> c = f_class f \<or> c \<in> set (f_bases f)"

definition BooleanField :: dbfield where
  "BooleanField = \<lparr>f_class = ''BooleanField'', f_bases = [''Field''],
     f_internal_type = ''BooleanField'', f_column = [], f_has_placeholder = False\<rparr>"

definition DurationField :: dbfield where
  "DurationField = \<lparr>f_class = ''DurationField'', f_bases = [''Field''],
     f_internal_type = ''DurationField'', f_column = [], f_has_placeholder = False\<rparr>"

definition IntegerField :: dbfield where
  "IntegerField = \<lparr>f_class = ''IntegerField'', f_bases = [''Field''],
     f_internal_type = ''IntegerField'', f_column = [], f_has_placeholder = False\<rparr>"

subsection \<open>Expression nodes\<close>

text \<open>
  The attributes every \<^verbatim>\<open>BaseExpression\<close> instance can hold: \<^verbatim>\<open>_output_field\<close>
  (\<open>None\<close> is Python's \<^verbatim>\<open>None\<close>, the class default), \<^verbatim>\<open>is_summary\<close>, the
  \<^verbatim>\<open>copied\<close> mark that \<^verbatim>\<open>copy()\<close> sets, and the two cells in which
  \<^verbatim>\<open>cached_property\<close> keeps \<^verbatim>\<open>_output_field_or_none\<close> and \<^verbatim>\<open>output_field\<close>
  once they have been computed (\<open>None\<close>: not computed yet).
\<close>

record base =
  output_field_attr :: "dbfield option"
  is_summary :: bool
  copied :: bool
  cached_output_field_or_none :: "dbfield option option"
  cached_output_field :: "dbfield option"

datatype comb_cls = Plain | DurationExpression | TemporalSubtraction

datatype value_cls = PlainValue | DurationValue

text \<open>
  \<open>Opaque k\<close> is an object of a class defined outside the module (a \<^verbatim>\<open>Q\<close>, a
  compiled where-node, an aggregate): the module only calls its methods, which the
  environment supplies.  A queryset is the part of \<^verbatim>\<open>QuerySet\<close> and its \<^verbatim>\<open>query\<close>
  that the module reads and writes: the fields of the selected columns, the ordering, the
  \<^verbatim>\<open>where\<close> tree, \<^verbatim>\<open>external_aliases\<close>, \<^verbatim>\<open>annotations\<close>, and a handle for the rest.
\<close>

datatype expr =
    F pyobj
  | ResolvedOuterRef pyobj
  | OuterRef pyobj
  | CombinedExpression comb_cls base expr string expr
  | Func base string "expr list" "(string \<times> string) list"
  | Value value_cls base pyval "bool option"
  | RawSQL base string "pyval list"
  | Star base
  | Random base
  | Col base string dbfield
  | Ref base string expr
  | ExpressionWrapper base expr
  | When base expr expr
  | Case base "expr list" expr "(string \<times> string) list"
  | Subquery base queryset "(string \<times> string) list"
  | Exists base queryset "(string \<times> string) list" bool
  | OrderBy base expr bool bool bool
  | Opaque nat
and pyobj = PyExpr expr | PyVal pyval
and queryset =
    QuerySet (qs_select: "dbfield list") (qs_ordering: "string list") (qs_where: wnode)
      (qs_external_aliases: "string set") (qs_annotations: "(string \<times> expr) list")
      (qs_rest: nat)
and wnode = WhereNode "wnode list" | Lookup expr pyobj | OtherChild nat

subsection \<open>The query and its collaborators\<close>

text \<open>
  The arguments of \<^verbatim>\<open>resolve_expression\<close> after \<^verbatim>\<open>query\<close>.  \<open>by_position\<close> records
  that the caller passed them positionally, which \<^verbatim>\<open>Exists.resolve_expression(self,
  query=None, **kwargs)\<close> does not accept.
\<close>

record resolve_args =
  allow_joins :: bool
  reuse :: "string list option"
  summarize :: bool
  for_save :: bool
  by_position :: bool

text \<open>
  The query that expressions are resolved against, with state \<open>'q\<close> (resolving a
  reference may add joins to it), and the methods of opaque objects.
\<close>

record 'q env =
  resolve_ref :: "'q \<Rightarrow> pyobj \<Rightarrow> bool \<Rightarrow> string list option \<Rightarrow> bool \<Rightarrow> (error + expr) \<times> 'q"
  bump_prefix :: "'q \<Rightarrow> queryset \<Rightarrow> queryset"
  opq_has_resolve :: "nat \<Rightarrow> bool"
  opq_resolve :: "'q \<Rightarrow> nat \<Rightarrow> resolve_args \<Rightarrow> (error + expr) \<times> 'q"
  opq_alias :: "nat \<Rightarrow> string option"
  opq_truthy :: "nat \<Rightarrow> bool"
  opq_sources :: "nat \<Rightarrow> error + expr list"
  opq_contains_aggregate :: "nat \<Rightarrow> error + bool"
  opq_group_by_cols :: "nat \<Rightarrow> error + expr list"
  opq_output_field_or_none :: "nat \<Rightarrow> error + dbfield option"

text \<open>
  Modelled from the spec: \<^verbatim>\<open>QuerySet.all()\<close> is not under src/.  The wrapper
  "exclusively owns a copy of the nested query (never shares the original)": the clone is
  an independent deep copy, which for values is the queryset itself.
\<close>

definition qs_all :: "queryset \<Rightarrow> queryset" where
  "qs_all qs = qs"

text \<open>
  Modelled from the spec: \<^verbatim>\<open>QuerySet.order_by()\<close> without arguments is not under src/.
  It "strips ordering from the nested query": a new queryset with no ordering.
\<close>

definition qs_order_by :: "queryset \<Rightarrow> queryset" where
  "qs_order_by qs = QuerySet (qs_select qs) [] (qs_where qs) (qs_external_aliases qs)
     (qs_annotations qs) (qs_rest qs)"

subsection \<open>Attribute tests\<close>

fun has_resolve_expression :: "'q env \<Rightarrow> expr \<Rightarrow> bool" where
  "has_resolve_expression env (Opaque k) = opq_has_resolve env k"
| "has_resolve_expression env _ = True"

text \<open>\<^verbatim>\<open>hasattr(resolved, 'alias')\<close>: of the module's classes only \<^verbatim>\<open>Col\<close> has one.\<close>

fun alias_of :: "'q env \<Rightarrow> expr \<Rightarrow> string option" where
  "alias_of env (Col b alias target) = Some alias"
| "alias_of env (Opaque k) = opq_alias env k"
| "alias_of env _ = None"

text \<open>
  Truth value of an object: the module's classes define neither \<^verbatim>\<open>__bool__\<close> nor
  \<^verbatim>\<open>__len__\<close>, so their instances are true.
\<close>

fun truthy :: "'q env \<Rightarrow> expr \<Rightarrow> bool" where
  "truthy env (Opaque k) = opq_truthy env k"
| "truthy env _ = True"

fun is_subquery :: "expr \<Rightarrow> bool" where
  "is_subquery (Subquery b qs ex) = True"
| "is_subquery (Exists b qs ex neg) = True"
| "is_subquery _ = False"

subsection \<open>get_source_expressions\<close>

text \<open>\<^verbatim>\<open>getattr(expr, 'lhs', None)\<close> for the children of a where-node, kept when true.\<close>

fun where_lhs :: "'q env \<Rightarrow> wnode list \<Rightarrow> expr list" where
  "where_lhs env [] = []"
| "where_lhs env (Lookup l r # cs) = (if truthy env l then l # where_lhs env cs else where_lhs env cs)"
| "where_lhs env (c # cs) = where_lhs env cs"

fun where_children :: "wnode \<Rightarrow> error + wnode list" where
  "where_children (WhereNode cs) = Inr cs"
| "where_children _ = Inl AttributeError"

fun get_source_expressions :: "'q env \<Rightarrow> expr \<Rightarrow> error + expr list" where
  "get_source_expressions env (F name) = Inl AttributeError"
| "get_source_expressions env (ResolvedOuterRef name) = Inl AttributeError"
| "get_source_expressions env (OuterRef name) = Inl AttributeError"
| "get_source_expressions env (CombinedExpression cls b lhs connector rhs) = Inr [lhs, rhs]"
| "get_source_expressions env (Func b name source_expressions extra) = Inr source_expressions"
| "get_source_expressions env (Value cls b v fs) = Inr []"
| "get_source_expressions env (RawSQL b sql params) = Inr []"
| "get_source_expressions env (Star b) = Inr []"
| "get_source_expressions env (Random b) = Inr []"
| "get_source_expressions env (Col b alias target) = Inr []"
| "get_source_expressions env (Ref b refs source) = Inr [source]"
| "get_source_expressions env (ExpressionWrapper b expression) = Inr [expression]"
| "get_source_expressions env (When b condition result) = Inr [condition, result]"
| "get_source_expressions env (Case b cases dflt extra) = Inr (cases @ [dflt])"
| "get_source_expressions env (Subquery b qs extra) =
     (case where_children (qs_where qs) of Inl e \<Rightarrow> Inl e | Inr cs \<Rightarrow> Inr (where_lhs env cs))"
| "get_source_expressions env (Exists b qs extra negated) =
     (case where_children (qs_where qs) of Inl e \<Rightarrow> Inl e | Inr cs \<Rightarrow> Inr (where_lhs env cs))"
| "get_source_expressions env (OrderBy b expression descending nulls_first nulls_last) =
     Inr [expression]"
| "get_source_expressions env (Opaque k) = opq_sources env k"

subsection \<open>resolve_expression\<close>

text \<open>\<^verbatim>\<open>c = self.copy(); c.is_summary = summarize\<close> on the attributes of the base class.\<close>

definition copy_base :: "resolve_args \<Rightarrow> base \<Rightarrow> base" where
  "copy_base a b = b\<lparr>copied := True, is_summary := summarize a\<rparr>"

text \<open>
  A call of \<^verbatim>\<open>resolve_expression\<close> returns the object it was called on as the call
  leaves it, the result or the exception, and the query state.  A child is shared by the
  receiver and its shallow copy until the copy's attribute is assigned, so what a child's
  own \<^verbatim>\<open>resolve_expression\<close> does to the child shows in the receiver.

  In the functions below \<open>res\<close> is the method call \<^verbatim>\<open>child.resolve_expression(query,
  ...)\<close> on a child, dispatched on the child's class.
\<close>

type_synonym 'q resolver = "resolve_args \<Rightarrow> 'q \<Rightarrow> expr \<Rightarrow> expr \<times> (error + expr) \<times> 'q"

text \<open>The loops \<^verbatim>\<open>for pos, arg in enumerate(c.source_expressions)\<close> and
  \<^verbatim>\<open>for pos, case in enumerate(c.cases)\<close>.\<close>

fun resolve_list ::
  "'q resolver \<Rightarrow> resolve_args \<Rightarrow> 'q \<Rightarrow> expr list \<Rightarrow> expr list \<times> (error + expr list) \<times> 'q"
where
  "resolve_list res a q [] = ([], Inr [], q)"
| "resolve_list res a q (x # xs) =
     (case res a q x of
        (x', Inl e, q1) \<Rightarrow> (x' # xs, Inl e, q1)
      | (x', Inr r, q1) \<Rightarrow>
          (case resolve_list res a q1 xs of
             (xs', Inl e, q2) \<Rightarrow> (x' # xs', Inl e, q2)
           | (xs', Inr rs, q2) \<Rightarrow> (x' # xs', Inr (r # rs), q2)))"

text \<open>
  The inner function \<^verbatim>\<open>resolve(child)\<close> of \<^verbatim>\<open>Subquery.resolve_expression\<close>, which
  calls with keyword arguments and adds the alias of the result to the clone's
  \<^verbatim>\<open>external_aliases\<close> (\<open>ext\<close>).
\<close>

fun resolve_child ::
  "'q resolver \<Rightarrow> 'q env \<Rightarrow> resolve_args \<Rightarrow> 'q \<Rightarrow> string set \<Rightarrow> pyobj
    \<Rightarrow> (error + pyobj \<times> string set) \<times> 'q"
where
  "resolve_child res env a q ext (PyVal v) = (Inr (PyVal v, ext), q)"
| "resolve_child res env a q ext (PyExpr child) =
     (if has_resolve_expression env child
      then (case res (a\<lparr>by_position := False\<rparr>) q child of
              (child', Inl e, q') \<Rightarrow> (Inl e, q')
            | (child', Inr resolved, q') \<Rightarrow>
                (Inr (PyExpr resolved,
                      (case alias_of env resolved of None \<Rightarrow> ext | Some al \<Rightarrow> insert al ext)), q'))
      else (Inr (PyExpr child, ext), q))"

text \<open>The inner function \<^verbatim>\<open>resolve_all(child)\<close>, on the clone's \<^verbatim>\<open>where\<close> tree.\<close>

fun resolve_all ::
  "'q resolver \<Rightarrow> 'q env \<Rightarrow> resolve_args \<Rightarrow> 'q \<Rightarrow> string set \<Rightarrow> wnode
    \<Rightarrow> (error + wnode \<times> string set) \<times> 'q"
and resolve_all_list ::
  "'q resolver \<Rightarrow> 'q env \<Rightarrow> resolve_args \<Rightarrow> 'q \<Rightarrow> string set \<Rightarrow> wnode list
    \<Rightarrow> (error + wnode list \<times> string set) \<times> 'q"
where
  "resolve_all res env a q ext (WhereNode children) =
     (case resolve_all_list res env a q ext children of
        (Inl e, q') \<Rightarrow> (Inl e, q')
      | (Inr (cs, ext'), q') \<Rightarrow> (Inr (WhereNode cs, ext'), q'))"
| "resolve_all res env a q ext (Lookup lhs rhs) =
     (case resolve_child res env a q ext rhs of
        (Inl e, q') \<Rightarrow> (Inl e, q')
      | (Inr (rhs', ext'), q') \<Rightarrow> (Inr (Lookup lhs rhs', ext'), q'))"
| "resolve_all res env a q ext (OtherChild k) = (Inr (OtherChild k, ext), q)"
| "resolve_all_list res env a q ext [] = (Inr ([], ext), q)"
| "resolve_all_list res env a q ext (c # cs) =
     (case resolve_all res env a q ext c of
        (Inl e, q1) \<Rightarrow> (Inl e, q1)
      | (Inr (c', ext1), q1) \<Rightarrow>
          (case resolve_all_list res env a q1 ext1 cs of
             (Inl e, q2) \<Rightarrow> (Inl e, q2)
           | (Inr (cs', ext2), q2) \<Rightarrow> (Inr (c' # cs', ext2), q2)))"

text \<open>The loop over \<^verbatim>\<open>clone.queryset.query.annotations.items()\<close>.\<close>

fun resolve_annotations ::
  "'q resolver \<Rightarrow> 'q env \<Rightarrow> resolve_args \<Rightarrow> 'q \<Rightarrow> string set \<Rightarrow> (string \<times> expr) list
    \<Rightarrow> (error + (string \<times> expr) list \<times> string set) \<times> 'q"
where
  "resolve_annotations res env a q ext [] = (Inr ([], ext), q)"
| "resolve_annotations res env a q ext ((key, v) # kvs) =
     (case (if is_subquery v then resolve_child res env a q ext (PyExpr v)
            else (Inr (PyExpr v, ext), q)) of
        (Inl e, q1) \<Rightarrow> (Inl e, q1)
      | (Inr (PyVal pv, ext1), q1) \<Rightarrow> (Inl TypeError, q1)
      | (Inr (PyExpr v', ext1), q1) \<Rightarrow>
          (case resolve_annotations res env a q1 ext1 kvs of
             (Inl e, q2) \<Rightarrow> (Inl e, q2)
           | (Inr (kvs', ext2), q2) \<Rightarrow> (Inr ((key, v') # kvs', ext2), q2)))"

text \<open>
  The body of \<^verbatim>\<open>Subquery.resolve_expression\<close> on the queryset of the clone:
  \<^verbatim>\<open>clone.queryset = clone.queryset.all()\<close> (from \<^verbatim>\<open>copy()\<close>), \<^verbatim>\<open>bump_prefix(query)\<close>,
  \<^verbatim>\<open>resolve_all(where)\<close>, the annotations.  An exception leaves the function with the
  clone, which is dropped.
\<close>

definition resolve_subquery ::
  "'q resolver \<Rightarrow> 'q env \<Rightarrow> resolve_args \<Rightarrow> 'q \<Rightarrow> queryset \<Rightarrow> (error + queryset) \<times> 'q"
where
  "resolve_subquery res env a q qs =
     (let clone = bump_prefix env q (qs_all qs) in
      case resolve_all res env a q (qs_external_aliases clone) (qs_where clone) of
        (Inl e, q1) \<Rightarrow> (Inl e, q1)
      | (Inr (w, ext), q1) \<Rightarrow>
          (case resolve_annotations res env a q1 ext (qs_annotations clone) of
             (Inl e, q2) \<Rightarrow> (Inl e, q2)
           | (Inr (anns, ext'), q2) \<Rightarrow>
               (Inr (QuerySet (qs_select clone) (qs_ordering clone) w ext' anns (qs_rest clone)),
                q2)))"

text \<open>
  One equation for each class's \<^verbatim>\<open>resolve_expression\<close>; a class without its own
  (\<^verbatim>\<open>Value\<close>'s calls it, \<^verbatim>\<open>RawSQL\<close>, \<^verbatim>\<open>Star\<close>, \<^verbatim>\<open>Random\<close>, \<^verbatim>\<open>Col\<close>,
  \<^verbatim>\<open>ExpressionWrapper\<close>, \<^verbatim>\<open>OrderBy\<close>) has \<^verbatim>\<open>BaseExpression\<close>'s, which passes its
  children four positional arguments and so leaves their \<^verbatim>\<open>for_save\<close> at its default.
  \<^verbatim>\<open>ResolvedOuterRef\<close> inherits \<^verbatim>\<open>F.resolve_expression\<close>.
\<close>

fun resolve_step :: "'q resolver \<Rightarrow> 'q env \<Rightarrow> 'q resolver" where
  "resolve_step res env a q (F name) =
     (case resolve_ref env q name (allow_joins a) (reuse a) (summarize a) of
        (r, q') \<Rightarrow> (F name, r, q'))"
| "resolve_step res env a q (ResolvedOuterRef name) =
     (case resolve_ref env q name (allow_joins a) (reuse a) (summarize a) of
        (r, q') \<Rightarrow> (ResolvedOuterRef name, r, q'))"
| "resolve_step res env a q (OuterRef name) =
     (OuterRef name,
      Inr (case name of PyExpr (OuterRef inner) \<Rightarrow> OuterRef inner | _ \<Rightarrow> ResolvedOuterRef name),
      q)"
| "resolve_step res env a q (CombinedExpression cls b lhs connector rhs) =
     (case res (a\<lparr>by_position := True\<rparr>) q lhs of
        (lhs', Inl e, q1) \<Rightarrow> (CombinedExpression cls b lhs' connector rhs, Inl e, q1)
      | (lhs', Inr l, q1) \<Rightarrow>
          (case res (a\<lparr>by_position := True\<rparr>) q1 rhs of
             (rhs', Inl e, q2) \<Rightarrow> (CombinedExpression cls b lhs' connector rhs', Inl e, q2)
           | (rhs', Inr r, q2) \<Rightarrow>
               (CombinedExpression cls b lhs' connector rhs',
                Inr (CombinedExpression cls (copy_base a b) l connector r), q2)))"
| "resolve_step res env a q (Func b name source_expressions extra) =
     (case resolve_list res (a\<lparr>by_position := True\<rparr>) q source_expressions of
        (args', Inl e, q') \<Rightarrow> (Func b name args' extra, Inl e, q')
      | (args', Inr rs, q') \<Rightarrow>
          (Func b name args' extra, Inr (Func (copy_base a b) name rs extra), q'))"
| "resolve_step res env a q (Value cls b v fs) =
     (Value cls b v fs, Inr (Value cls (copy_base a b) v (Some (for_save a))), q)"
| "resolve_step res env a q (RawSQL b sql params) =
     (RawSQL b sql params, Inr (RawSQL (copy_base a b) sql params), q)"
| "resolve_step res env a q (Star b) = (Star b, Inr (Star (copy_base a b)), q)"
| "resolve_step res env a q (Random b) = (Random b, Inr (Random (copy_base a b)), q)"
| "resolve_step res env a q (Col b alias target) =
     (Col b alias target, Inr (Col (copy_base a b) alias target), q)"
| "resolve_step res env a q (Ref b refs source) = (Ref b refs source, Inr (Ref b refs source), q)"
| "resolve_step res env a q (ExpressionWrapper b expression) =
     (case res (a\<lparr>for_save := False, by_position := True\<rparr>) q expression of
        (expression', Inl e, q') \<Rightarrow> (ExpressionWrapper b expression', Inl e, q')
      | (expression', Inr r, q') \<Rightarrow>
          (ExpressionWrapper b expression', Inr (ExpressionWrapper (copy_base a b) r), q'))"
| "resolve_step res env a q (When b condition result) =
     (case (if has_resolve_expression env condition
            then res (a\<lparr>for_save := False, by_position := True\<rparr>) q condition
            else (condition, Inr condition, q)) of
        (condition', Inl e, q1) \<Rightarrow> (When b condition' result, Inl e, q1)
      | (condition', Inr c, q1) \<Rightarrow>
          (case res (a\<lparr>by_position := True\<rparr>) q1 result of
             (result', Inl e, q2) \<Rightarrow> (When b condition' result', Inl e, q2)
           | (result', Inr r, q2) \<Rightarrow>
               (When b condition' result', Inr (When (copy_base a b) c r), q2)))"
| "resolve_step res env a q (Case b cases dflt extra) =
     (case resolve_list res (a\<lparr>by_position := True\<rparr>) q cases of
        (cases', Inl e, q1) \<Rightarrow> (Case b cases' dflt extra, Inl e, q1)
      | (cases', Inr cs, q1) \<Rightarrow>
          (case res (a\<lparr>by_position := True\<rparr>) q1 dflt of
             (dflt', Inl e, q2) \<Rightarrow> (Case b cases' dflt' extra, Inl e, q2)
           | (dflt', Inr d, q2) \<Rightarrow>
               (Case b cases' dflt' extra, Inr (Case (copy_base a b) cs d extra), q2)))"
| "resolve_step res env a q (Subquery b qs extra) =
     (case resolve_subquery res env a q qs of
        (Inl e, q') \<Rightarrow> (Subquery b qs extra, Inl e, q')
      | (Inr qs', q') \<Rightarrow> (Subquery b qs extra, Inr (Subquery (copy_base a b) qs' extra), q'))"
| "resolve_step res env a q (Exists b qs extra negated) =
     (if by_position a then (Exists b qs extra negated, Inl TypeError, q)
      else
        (case resolve_subquery res env a q (qs_order_by qs) of
           (Inl e, q') \<Rightarrow> (Exists b (qs_order_by qs) extra negated, Inl e, q')
         | (Inr qs', q') \<Rightarrow>
             (Exists b (qs_order_by qs) extra negated,
              Inr (Exists (copy_base a b) qs' extra negated), q')))"
| "resolve_step res env a q (OrderBy b expression descending nulls_first nulls_last) =
     (case res (a\<lparr>for_save := False, by_position := True\<rparr>) q expression of
        (expression', Inl e, q') \<Rightarrow>
          (OrderBy b expression' descending nulls_first nulls_last, Inl e, q')
      | (expression', Inr r, q') \<Rightarrow>
          (OrderBy b expression' descending nulls_first nulls_last,
           Inr (OrderBy (copy_base a b) r descending nulls_first nulls_last), q'))"
| "resolve_step res env a q (Opaque k) =
     (if opq_has_resolve env k
      then (case opq_resolve env q k a of (r, q') \<Rightarrow> (Opaque k, r, q'))
      else (Opaque k, Inl AttributeError, q))"

text \<open>
  The method itself: the call on a child is the method again.  The first argument bounds
  the depth of the calls, as the interpreter does; a call beyond it raises
  \<^verbatim>\<open>RecursionError\<close>.
\<close>

primrec resolve_expression :: "nat \<Rightarrow> 'q env \<Rightarrow> 'q resolver" where
  "resolve_expression 0 env = (\<lambda>a q e. (e, Inl RecursionError, q))"
| "resolve_expression (Suc n) env = resolve_step (resolve_expression n env) env"

subsection \<open>Output fields\<close>

text \<open>The attributes of \<^verbatim>\<open>BaseExpression\<close> in a node; \<^verbatim>\<open>F\<close> and its subclasses are
  not expressions and have none.\<close>

fun base_of :: "expr \<Rightarrow> base option" where
  "base_of (F name) = None"
| "base_of (ResolvedOuterRef name) = None"
| "base_of (OuterRef name) = None"
| "base_of (CombinedExpression cls b lhs connector rhs) = Some b"
| "base_of (Func b name source_expressions extra) = Some b"
| "base_of (Value cls b v fs) = Some b"
| "base_of (RawSQL b sql params) = Some b"
| "base_of (Star b) = Some b"
| "base_of (Random b) = Some b"
| "base_of (Col b alias target) = Some b"
| "base_of (Ref b refs source) = Some b"
| "base_of (ExpressionWrapper b expression) = Some b"
| "base_of (When b condition result) = Some b"
| "base_of (Case b cases dflt extra) = Some b"
| "base_of (Subquery b qs extra) = Some b"
| "base_of (Exists b qs extra negated) = Some b"
| "base_of (OrderBy b expression descending nulls_first nulls_last) = Some b"
| "base_of (Opaque k) = None"

fun set_base :: "base \<Rightarrow> expr \<Rightarrow> expr" where
  "set_base b' (CombinedExpression cls b lhs connector rhs) = CombinedExpression cls b' lhs connector rhs"
| "set_base b' (Func b name source_expressions extra) = Func b' name source_expressions extra"
| "set_base b' (Value cls b v fs) = Value cls b' v fs"
| "set_base b' (RawSQL b sql params) = RawSQL b' sql params"
| "set_base b' (Star b) = Star b'"
| "set_base b' (Random b) = Random b'"
| "set_base b' (Col b alias target) = Col b' alias target"
| "set_base b' (Ref b refs source) = Ref b' refs source"
| "set_base b' (ExpressionWrapper b expression) = ExpressionWrapper b' expression"
| "set_base b' (When b condition result) = When b' condition result"
| "set_base b' (Case b cases dflt extra) = Case b' cases dflt extra"
| "set_base b' (Subquery b qs extra) = Subquery b' qs extra"
| "set_base b' (Exists b qs extra negated) = Exists b' qs extra negated"
| "set_base b' (OrderBy b expression descending nulls_first nulls_last) =
     OrderBy b' expression descending nulls_first nulls_last"
| "set_base b' e = e"

text \<open>\<^verbatim>\<open>BaseExpression.__init__(output_field)\<close> on a new object.\<close>

definition new_base :: "dbfield option \<Rightarrow> base" where
  "new_base output_field_arg =
     \<lparr>output_field_attr = output_field_arg, is_summary = False, copied = False,
      cached_output_field_or_none = None, cached_output_field = None\<rparr>"

text \<open>The assignment \<^verbatim>\<open>N._output_field = f\<close> from outside.\<close>

definition set_output_field :: "dbfield option \<Rightarrow> expr \<Rightarrow> expr" where
  "set_output_field f e =
     (case base_of e of None \<Rightarrow> e | Some b \<Rightarrow> set_base (b\<lparr>output_field_attr := f\<rparr>) e)"

text \<open>
  The loop of \<^verbatim>\<open>_resolve_output_field\<close> over the source fields, started with the
  current \<^verbatim>\<open>self._output_field\<close>: it returns the attribute as the loop leaves it and
  the \<^verbatim>\<open>FieldError\<close> if one was raised.
\<close>

fun unify_sources :: "dbfield option \<Rightarrow> dbfield option list \<Rightarrow> dbfield option \<times> error option" where
  "unify_sources cur [] = (cur, None)"
| "unify_sources cur (source # sources) =
     (let cur' = (if cur = None then source else cur) in
      case source of
        None \<Rightarrow> unify_sources cur' sources
      | Some g \<Rightarrow>
          (case cur' of
             None \<Rightarrow> unify_sources cur' sources
           | Some f \<Rightarrow>
               if \<not> isinstance f (f_class g) then (cur', Some FieldError)
               else unify_sources cur' sources))"

text \<open>In the functions below \<open>ofon\<close> is the attribute access
  \<^verbatim>\<open>e._output_field_or_none\<close> on a child: it returns the child as the access leaves it.\<close>

type_synonym getter = "expr \<Rightarrow> expr \<times> (error + dbfield option)"

text \<open>\<^verbatim>\<open>[e._output_field_or_none for e in ...]\<close> over a list of children.\<close>

fun fields_of_list :: "getter \<Rightarrow> expr list \<Rightarrow> expr list \<times> (error + dbfield option list)" where
  "fields_of_list ofon [] = ([], Inr [])"
| "fields_of_list ofon (x # xs) =
     (case ofon x of
        (x', Inl e) \<Rightarrow> (x' # xs, Inl e)
      | (x', Inr f) \<Rightarrow>
          (case fields_of_list ofon xs of
             (xs', Inl e) \<Rightarrow> (x' # xs', Inl e)
           | (xs', Inr fs) \<Rightarrow> (x' # xs', Inr (f # fs))))"

text \<open>The same over the sources of a subquery, the true \<^verbatim>\<open>lhs\<close> of the children of
  its \<^verbatim>\<open>where\<close>.\<close>

fun fields_of_where :: "'q env \<Rightarrow> getter \<Rightarrow> wnode list \<Rightarrow> wnode list \<times> (error + dbfield option list)" where
  "fields_of_where env ofon [] = ([], Inr [])"
| "fields_of_where env ofon (Lookup l r # cs) =
     (if truthy env l
      then (case ofon l of
              (l', Inl e) \<Rightarrow> (Lookup l' r # cs, Inl e)
            | (l', Inr f) \<Rightarrow>
                (case fields_of_where env ofon cs of
                   (cs', Inl e) \<Rightarrow> (Lookup l' r # cs', Inl e)
                 | (cs', Inr fs) \<Rightarrow> (Lookup l' r # cs', Inr (f # fs))))
      else (case fields_of_where env ofon cs of (cs', r') \<Rightarrow> (Lookup l r # cs', r')))"
| "fields_of_where env ofon (c # cs) =
     (case fields_of_where env ofon cs of (cs', r') \<Rightarrow> (c # cs', r'))"

definition fields_of_queryset ::
  "'q env \<Rightarrow> getter \<Rightarrow> queryset \<Rightarrow> queryset \<times> (error + dbfield option list)" where
  "fields_of_queryset env ofon qs =
     (case qs_where qs of
        WhereNode cs \<Rightarrow>
          (case fields_of_where env ofon cs of
             (cs', r) \<Rightarrow>
               (QuerySet (qs_select qs) (qs_ordering qs) (WhereNode cs') (qs_external_aliases qs)
                  (qs_annotations qs) (qs_rest qs), r))
      | _ \<Rightarrow> (qs, Inl AttributeError))"

text \<open>\<^verbatim>\<open>get_source_fields\<close>: the \<^verbatim>\<open>_output_field_or_none\<close> of every source
  expression; \<^verbatim>\<open>When\<close> overrides it with that of its result alone.\<close>

fun get_source_fields :: "'q env \<Rightarrow> getter \<Rightarrow> expr \<Rightarrow> expr \<times> (error + dbfield option list)" where
  "get_source_fields env ofon (CombinedExpression cls b lhs connector rhs) =
     (case fields_of_list ofon [lhs, rhs] of
        ([lhs', rhs'], r) \<Rightarrow> (CombinedExpression cls b lhs' connector rhs', r)
      | (_, r) \<Rightarrow> (CombinedExpression cls b lhs connector rhs, r))"
| "get_source_fields env ofon (Func b name source_expressions extra) =
     (case fields_of_list ofon source_expressions of (args', r) \<Rightarrow> (Func b name args' extra, r))"
| "get_source_fields env ofon (Ref b refs source) =
     (case ofon source of
        (source', Inl e) \<Rightarrow> (Ref b refs source', Inl e)
      | (source', Inr f) \<Rightarrow> (Ref b refs source', Inr [f]))"
| "get_source_fields env ofon (ExpressionWrapper b expression) =
     (case ofon expression of
        (expression', Inl e) \<Rightarrow> (ExpressionWrapper b expression', Inl e)
      | (expression', Inr f) \<Rightarrow> (ExpressionWrapper b expression', Inr [f]))"
| "get_source_fields env ofon (When b condition result) =
     (case ofon result of
        (result', Inl e) \<Rightarrow> (When b condition result', Inl e)
      | (result', Inr f) \<Rightarrow> (When b condition result', Inr [f]))"
| "get_source_fields env ofon (Case b cases dflt extra) =
     (case fields_of_list ofon cases of
        (cases', Inl e) \<Rightarrow> (Case b cases' dflt extra, Inl e)
      | (cases', Inr fs) \<Rightarrow>
          (case ofon dflt of
             (dflt', Inl e) \<Rightarrow> (Case b cases' dflt' extra, Inl e)
           | (dflt', Inr f) \<Rightarrow> (Case b cases' dflt' extra, Inr (fs @ [f]))))"
| "get_source_fields env ofon (Subquery b qs extra) =
     (case fields_of_queryset env ofon qs of (qs', r) \<Rightarrow> (Subquery b qs' extra, r))"
| "get_source_fields env ofon (Exists b qs extra negated) =
     (case fields_of_queryset env ofon qs of (qs', r) \<Rightarrow> (Exists b qs' extra negated, r))"
| "get_source_fields env ofon (OrderBy b expression descending nulls_first nulls_last) =
     (case ofon expression of
        (expression', Inl e) \<Rightarrow>
          (OrderBy b expression' descending nulls_first nulls_last, Inl e)
      | (expression', Inr f) \<Rightarrow>
          (OrderBy b expression' descending nulls_first nulls_last, Inr [f]))"
| "get_source_fields env ofon (Opaque k) = (Opaque k, Inl AttributeError)"
| "get_source_fields env ofon (F name) = (F name, Inl AttributeError)"
| "get_source_fields env ofon (ResolvedOuterRef name) = (ResolvedOuterRef name, Inl AttributeError)"
| "get_source_fields env ofon (OuterRef name) = (OuterRef name, Inl AttributeError)"
| "get_source_fields env ofon e = (e, Inr [])"

text \<open>
  Modelled from the spec: \<^verbatim>\<open>cached_property\<close> (\<^verbatim>\<open>django.utils.functional\<close>) is not
  under src/.  It is a "cached lazy property with mutation of a private cache field on
  first access": the first access that returns stores the value in the cell of the
  instance, and every later access returns the cell; an access that raises stores nothing.

  \<open>output_field_or_none_step\<close> is \<^verbatim>\<open>_output_field_or_none\<close> under that decorator, with
  \<^verbatim>\<open>_resolve_output_field\<close> inlined.
\<close>

definition output_field_or_none_step :: "'q env \<Rightarrow> getter \<Rightarrow> getter" where
  "output_field_or_none_step env ofon e =
     (case base_of e of
        None \<Rightarrow>
          (case e of Opaque k \<Rightarrow> (e, opq_output_field_or_none env k) | _ \<Rightarrow> (e, Inl AttributeError))
      | Some b \<Rightarrow>
          (case cached_output_field_or_none b of
             Some v \<Rightarrow> (e, Inr v)
           | None \<Rightarrow>
               (case output_field_attr b of
                  Some f \<Rightarrow> (set_base (b\<lparr>cached_output_field_or_none := Some (Some f)\<rparr>) e, Inr (Some f))
                | None \<Rightarrow>
                    (case get_source_fields env ofon e of
                       (e', Inl err) \<Rightarrow> (e', Inl err)
                     | (e', Inr sources) \<Rightarrow>
                         (case unify_sources None sources of
                            (cur, Some err) \<Rightarrow> (set_base (b\<lparr>output_field_attr := cur\<rparr>) e', Inl err)
                          | (cur, None) \<Rightarrow>
                              (set_base (b\<lparr>output_field_attr := cur,
                                         cached_output_field_or_none := Some cur\<rparr>) e',
                               Inr cur))))))"

primrec output_field_or_none :: "nat \<Rightarrow> 'q env \<Rightarrow> getter" where
  "output_field_or_none 0 env = (\<lambda>e. (e, Inl RecursionError))"
| "output_field_or_none (Suc n) env = output_field_or_none_step env (output_field_or_none n env)"

text \<open>
  \<^verbatim>\<open>output_field\<close>: a \<^verbatim>\<open>cached_property\<close> of \<^verbatim>\<open>BaseExpression\<close> that raises
  \<^verbatim>\<open>FieldError\<close> when \<^verbatim>\<open>_output_field_or_none\<close> is \<^verbatim>\<open>None\<close>; \<^verbatim>\<open>Exists\<close> overrides
  it with a plain property.
\<close>

definition output_field :: "nat \<Rightarrow> 'q env \<Rightarrow> expr \<Rightarrow> expr \<times> (error + dbfield)" where
  "output_field n env e =
     (case e of
        Exists b qs extra negated \<Rightarrow> (e, Inr BooleanField)
      | _ \<Rightarrow>
        (case base_of e of
           None \<Rightarrow>
             (case e of
                Opaque k \<Rightarrow>
                  (case opq_output_field_or_none env k of
                     Inl err \<Rightarrow> (e, Inl err)
                   | Inr None \<Rightarrow> (e, Inl FieldError)
                   | Inr (Some f) \<Rightarrow> (e, Inr f))
              | _ \<Rightarrow> (e, Inl AttributeError))
         | Some b \<Rightarrow>
             (case cached_output_field b of
                Some f \<Rightarrow> (e, Inr f)
              | None \<Rightarrow>
                  (case output_field_or_none n env e of
                     (e', Inl err) \<Rightarrow> (e', Inl err)
                   | (e', Inr None) \<Rightarrow> (e', Inl FieldError)
                   | (e', Inr (Some f)) \<Rightarrow>
                       (case base_of e' of
                          None \<Rightarrow> (e', Inr f)
                        | Some b' \<Rightarrow> (set_base (b'\<lparr>cached_output_field := Some f\<rparr>) e', Inr f))))))"

subsection \<open>Constructors\<close>

text \<open>\<^verbatim>\<open>Subquery.__init__\<close>: with no \<^verbatim>\<open>output_field\<close> and exactly one selected column,
  the field of that column.  \<^verbatim>\<open>Exists.__init__\<close> sets \<^verbatim>\<open>negated\<close> and calls it.\<close>

definition Subquery_init :: "queryset \<Rightarrow> dbfield option \<Rightarrow> (string \<times> string) list \<Rightarrow> expr" where
  "Subquery_init queryset output_field_arg extra =
     Subquery (new_base (if output_field_arg = None \<and> length (qs_select queryset) = 1
                         then Some (qs_select queryset ! 0) else output_field_arg)) queryset extra"

definition Exists_init :: "queryset \<Rightarrow> dbfield option \<Rightarrow> bool \<Rightarrow> (string \<times> string) list \<Rightarrow> expr" where
  "Exists_init queryset output_field_arg negated extra =
     Exists (new_base (if output_field_arg = None \<and> length (qs_select queryset) = 1
                       then Some (qs_select queryset ! 0) else output_field_arg)) queryset extra negated"

text \<open>\<^verbatim>\<open>OrderBy.__init__\<close>; the wrapped object is any Python object.\<close>

definition OrderBy_init :: "'q env \<Rightarrow> pyobj \<Rightarrow> bool \<Rightarrow> bool \<Rightarrow> bool \<Rightarrow> error + expr" where
  "OrderBy_init env expression descending nulls_first nulls_last =
     (if nulls_first \<and> nulls_last then Inl ValueError
      else
        (case expression of
           PyVal v \<Rightarrow> Inl ValueError
         | PyExpr e \<Rightarrow>
             if \<not> has_resolve_expression env e then Inl ValueError
             else Inr (OrderBy (new_base None) e descending nulls_first nulls_last)))"

subsection \<open>String formatting\<close>

text \<open>\<^verbatim>\<open>sep.join(parts)\<close>.\<close>

fun join :: "string \<Rightarrow> string list \<Rightarrow> string" where
  "join sep [] = []"
| "join sep [x] = x"
| "join sep (x # y # ys) = x @ sep @ join sep (y # ys)"

text \<open>
  \<^verbatim>\<open>template % mapping\<close> for the formats the module's templates use: text,
  \<^verbatim>\<open>%%\<close> and \<^verbatim>\<open>%(key)s\<close>.  The scanner is in the text, after a \<^verbatim>\<open>%\<close>, inside
  the parentheses of a key, or before the conversion character of a key whose value has
  been looked up.  A key that is missing raises \<^verbatim>\<open>KeyError\<close>, a format that ends early
  or has another conversion \<^verbatim>\<open>ValueError\<close>, a conversion without a key
  \<^verbatim>\<open>TypeError\<close>.
\<close>

datatype fmt_state = Text | Percent | Key string | Conv string

fun format_scan :: "(string \<times> string) list \<Rightarrow> fmt_state \<Rightarrow> string \<Rightarrow> error + string" where
  "format_scan d Text [] = Inr []"
| "format_scan d Text (c # cs) =
     (if c = CHR ''%'' then format_scan d Percent cs
      else (case format_scan d Text cs of Inl e \<Rightarrow> Inl e | Inr r \<Rightarrow> Inr (c # r)))"
| "format_scan d Percent [] = Inl ValueError"
| "format_scan d Percent (c # cs) =
     (if c = CHR ''%'' then (case format_scan d Text cs of Inl e \<Rightarrow> Inl e | Inr r \<Rightarrow> Inr (c # r))
      else if c = CHR ''('' then format_scan d (Key []) cs
      else Inl TypeError)"
| "format_scan d (Key k) [] = Inl ValueError"
| "format_scan d (Key k) (c # cs) =
     (if c = CHR '')''
      then (case map_of d k of None \<Rightarrow> Inl KeyError | Some v \<Rightarrow> format_scan d (Conv v) cs)
      else format_scan d (Key (k @ [c])) cs)"
| "format_scan d (Conv v) [] = Inl ValueError"
| "format_scan d (Conv v) (c # cs) =
     (if c = CHR ''s''
      then (case format_scan d Text cs of Inl e \<Rightarrow> Inl e | Inr r \<Rightarrow> Inr (v @ r))
      else Inl ValueError)"

definition format_dict :: "string \<Rightarrow> (string \<times> string) list \<Rightarrow> error + string" where
  "format_dict template d = format_scan d Text template"

text \<open>
  \<^verbatim>\<open>template % s\<close> for one string \<open>s\<close>: text, \<^verbatim>\<open>%%\<close> and exactly one \<^verbatim>\<open>%s\<close>.
  The flag says that the argument has been used.
\<close>

fun format_one :: "string \<Rightarrow> bool \<Rightarrow> string \<Rightarrow> error + string" where
  "format_one s used [] = (if used then Inr [] else Inl TypeError)"
| "format_one s used [c] =
     (if c = CHR ''%'' then Inl ValueError
      else (case format_one s used [] of Inl e \<Rightarrow> Inl e | Inr r \<Rightarrow> Inr (c # r)))"
| "format_one s used (c # c' # cs) =
     (if c \<noteq> CHR ''%''
      then (case format_one s used (c' # cs) of Inl e \<Rightarrow> Inl e | Inr r \<Rightarrow> Inr (c # r))
      else if c' = CHR ''%''
      then (case format_one s used cs of Inl e \<Rightarrow> Inl e | Inr r \<Rightarrow> Inr (c' # r))
      else if c' = CHR ''s'' \<and> \<not> used
      then (case format_one s True cs of Inl e \<Rightarrow> Inl e | Inr r \<Rightarrow> Inr (s @ r))
      else Inl TypeError)"

subsection \<open>The compiler and the connection\<close>

type_synonym sql = "string \<times> pyval list"

text \<open>
  \<^verbatim>\<open>compiler.compile(node)\<close> and \<^verbatim>\<open>compiler.compile(node, connection)\<close> (the second
  argument is \<^verbatim>\<open>select_format\<close>), which are not under src/: each returns the node as the
  call leaves it and the SQL with its parameters, or the exception.
\<close>

record compiler =
  compile :: "expr \<Rightarrow> expr \<times> (error + sql)"
  compile_select :: "expr \<Rightarrow> expr \<times> (error + sql)"

text \<open>\<^verbatim>\<open>connection.features\<close>, \<^verbatim>\<open>connection.ops\<close> and the methods of a field that take
  the connection.\<close>

record connection =
  has_native_duration_field :: bool
  check_expression_support :: "expr \<Rightarrow> error option"
  combine_expression :: "string \<Rightarrow> string list \<Rightarrow> string"
  combine_duration_expression :: "string \<Rightarrow> string list \<Rightarrow> error + string"
  format_for_duration_arithmetic :: "string \<Rightarrow> error + string"
  subtract_temporals :: "string \<Rightarrow> sql \<Rightarrow> sql \<Rightarrow> error + sql"
  date_interval_sql :: "pyval \<Rightarrow> error + sql"
  unification_cast_sql :: "dbfield \<Rightarrow> string"
  get_db_prep_value :: "dbfield \<Rightarrow> pyval \<Rightarrow> pyval"
  get_db_prep_save :: "dbfield \<Rightarrow> pyval \<Rightarrow> pyval"
  get_placeholder :: "dbfield \<Rightarrow> pyval \<Rightarrow> string"

text \<open>
  Modelled from the spec: the generic \<^verbatim>\<open>combine_expression\<close> of the dialect
  (\<^verbatim>\<open>BaseDatabaseOperations\<close>) is not under src/.  The scenario "renders as
  \<^verbatim>\<open>(%s + %s)\<close>" fixes it: the operands joined by the connector between two spaces.
\<close>

definition generic_combine_expression :: "string \<Rightarrow> string list \<Rightarrow> string" where
  "generic_combine_expression connector sub_expressions =
     join ('' '' @ connector @ '' '') sub_expressions"

subsection \<open>as_sql\<close>

text \<open>\<^verbatim>\<open>ResolvedOuterRef.as_sql(*args, **kwargs)\<close>.\<close>

definition ResolvedOuterRef_as_sql :: "compiler \<Rightarrow> connection \<Rightarrow> pyobj \<Rightarrow> expr \<times> (error + sql)" where
  "ResolvedOuterRef_as_sql cmp conn name = (ResolvedOuterRef name, Inl ValueError)"

text \<open>The end of \<^verbatim>\<open>Value.as_sql\<close>: a literal \<^verbatim>\<open>NULL\<close> for \<^verbatim>\<open>None\<close>, else a
  placeholder.\<close>

definition value_sql :: "pyval \<Rightarrow> sql" where
  "value_sql val = (if val = PNone then (''NULL'', []) else (''%s'', [val]))"

text \<open>\<^verbatim>\<open>Value.as_sql\<close>, without the call of \<^verbatim>\<open>check_expression_support\<close>.\<close>

definition Value_as_sql_body ::
  "nat \<Rightarrow> 'q env \<Rightarrow> connection \<Rightarrow> value_cls \<Rightarrow> base \<Rightarrow> pyval \<Rightarrow> bool option \<Rightarrow> expr \<times> (error + sql)"
where
  "Value_as_sql_body n env conn cls b v fs =
     (case output_field_attr b of
        None \<Rightarrow> (Value cls b v fs, Inr (value_sql v))
      | Some f0 \<Rightarrow>
          (case fs of
             None \<Rightarrow> (Value cls b v fs, Inl AttributeError)
           | Some save \<Rightarrow>
               (case output_field n env (Value cls b v fs) of
                  (self', Inl e) \<Rightarrow> (self', Inl e)
                | (self', Inr f) \<Rightarrow>
                    (let val = (if save then get_db_prep_save conn f v
                                else get_db_prep_value conn f v)
                     in if f_has_placeholder f0
                        then (self', Inr (get_placeholder conn f0 val, [val]))
                        else (self', Inr (value_sql val))))))"

text \<open>\<^verbatim>\<open>Value.as_sql\<close> and \<^verbatim>\<open>DurationValue.as_sql\<close>, which calls it when the
  connection has a native duration field.\<close>

definition Value_as_sql ::
  "nat \<Rightarrow> 'q env \<Rightarrow> compiler \<Rightarrow> connection \<Rightarrow> value_cls \<Rightarrow> base \<Rightarrow> pyval \<Rightarrow> bool option
    \<Rightarrow> expr \<times> (error + sql)"
where
  "Value_as_sql n env cmp conn cls b v fs =
     (case check_expression_support conn (Value cls b v fs) of
        Some e \<Rightarrow> (Value cls b v fs, Inl e)
      | None \<Rightarrow>
          (case cls of
             PlainValue \<Rightarrow> Value_as_sql_body n env conn cls b v fs
           | DurationValue \<Rightarrow>
               if has_native_duration_field conn then Value_as_sql_body n env conn cls b v fs
               else (Value cls b v fs, date_interval_sql conn v)))"

text \<open>\<^verbatim>\<open>try: x.output_field except FieldError: None\<close>: only \<^verbatim>\<open>FieldError\<close> is
  caught.\<close>

definition try_output_field :: "nat \<Rightarrow> 'q env \<Rightarrow> expr \<Rightarrow> expr \<times> (error + dbfield option)" where
  "try_output_field n env e =
     (case output_field n env e of
        (e', Inl FieldError) \<Rightarrow> (e', Inr None)
      | (e', Inl err) \<Rightarrow> (e', Inl err)
      | (e', Inr f) \<Rightarrow> (e', Inr (Some f)))"

text \<open>\<^verbatim>\<open>DurationExpression.compile(side, compiler, connection)\<close>.\<close>

definition is_DurationValue :: "expr \<Rightarrow> bool" where
  "is_DurationValue e = (case e of Value DurationValue b v fs \<Rightarrow> True | _ \<Rightarrow> False)"

definition DurationExpression_compile ::
  "nat \<Rightarrow> 'q env \<Rightarrow> compiler \<Rightarrow> connection \<Rightarrow> expr \<Rightarrow> expr \<times> (error + sql)" where
  "DurationExpression_compile n env cmp conn side =
     (if is_DurationValue side then compile cmp side
      else
        (case try_output_field n env side of
           (side', Inl e) \<Rightarrow> (side', Inl e)
         | (side', Inr None) \<Rightarrow> compile cmp side'
         | (side', Inr (Some output)) \<Rightarrow>
             if f_internal_type output = ''DurationField''
             then (case compile cmp side' of
                     (side'', Inl e) \<Rightarrow> (side'', Inl e)
                   | (side'', Inr (sql, params)) \<Rightarrow>
                       (case format_for_duration_arithmetic conn sql of
                          Inl e \<Rightarrow> (side'', Inl e)
                        | Inr sql' \<Rightarrow> (side'', Inr (sql', params))))
             else compile cmp side'))"

text \<open>\<^verbatim>\<open>DurationExpression.as_sql\<close>; it returns both operands as the call leaves
  them.\<close>

definition DurationExpression_as_sql ::
  "nat \<Rightarrow> 'q env \<Rightarrow> compiler \<Rightarrow> connection \<Rightarrow> base \<Rightarrow> expr \<Rightarrow> string \<Rightarrow> expr
    \<Rightarrow> (expr \<times> expr) \<times> (error + sql)"
where
  "DurationExpression_as_sql n env cmp conn b lhs connector rhs =
     (case check_expression_support conn (CombinedExpression DurationExpression b lhs connector rhs) of
        Some e \<Rightarrow> ((lhs, rhs), Inl e)
      | None \<Rightarrow>
          (case DurationExpression_compile n env cmp conn lhs of
             (lhs', Inl e) \<Rightarrow> ((lhs', rhs), Inl e)
           | (lhs', Inr (lsql, lparams)) \<Rightarrow>
               (case DurationExpression_compile n env cmp conn rhs of
                  (rhs', Inl e) \<Rightarrow> ((lhs', rhs'), Inl e)
                | (rhs', Inr (rsql, rparams)) \<Rightarrow>
                    (case combine_duration_expression conn connector [lsql, rsql] of
                       Inl e \<Rightarrow> ((lhs', rhs'), Inl e)
                     | Inr sql \<Rightarrow>
                         ((lhs', rhs'), Inr (''('' @ sql @ '')'', lparams @ rparams))))))"

text \<open>\<^verbatim>\<open>TemporalSubtraction.as_sql\<close>.\<close>

definition TemporalSubtraction_as_sql ::
  "nat \<Rightarrow> 'q env \<Rightarrow> compiler \<Rightarrow> connection \<Rightarrow> base \<Rightarrow> expr \<Rightarrow> expr
    \<Rightarrow> (expr \<times> expr) \<times> (error + sql)"
where
  "TemporalSubtraction_as_sql n env cmp conn b lhs rhs =
     (case check_expression_support conn (CombinedExpression TemporalSubtraction b lhs ''-'' rhs) of
        Some e \<Rightarrow> ((lhs, rhs), Inl e)
      | None \<Rightarrow>
          (case compile_select cmp lhs of
             (lhs', Inl e) \<Rightarrow> ((lhs', rhs), Inl e)
           | (lhs', Inr l) \<Rightarrow>
               (case compile_select cmp rhs of
                  (rhs', Inl e) \<Rightarrow> ((lhs', rhs'), Inl e)
                | (rhs', Inr r) \<Rightarrow>
                    (case output_field n env lhs' of
                       (lhs'', Inl e) \<Rightarrow> ((lhs'', rhs'), Inl e)
                     | (lhs'', Inr f) \<Rightarrow>
                         ((lhs'', rhs'), subtract_temporals conn (f_internal_type f) l r)))))"

text \<open>The two tests of \<^verbatim>\<open>CombinedExpression.as_sql\<close> on the output fields of the
  operands (\<^verbatim>\<open>None\<close> where the access raised \<^verbatim>\<open>FieldError\<close>).\<close>

definition duration_case :: "connection \<Rightarrow> dbfield option \<Rightarrow> dbfield option \<Rightarrow> bool" where
  "duration_case conn lhs_output rhs_output \<longleftrightarrow>
     \<not> has_native_duration_field conn \<and>
     ((case lhs_output of None \<Rightarrow> False | Some f \<Rightarrow> f_internal_type f = ''DurationField'') \<or>
      (case rhs_output of None \<Rightarrow> False | Some f \<Rightarrow> f_internal_type f = ''DurationField''))"

definition temporal_case :: "string \<Rightarrow> dbfield option \<Rightarrow> dbfield option \<Rightarrow> bool" where
  "temporal_case connector lhs_output rhs_output \<longleftrightarrow>
     (case (lhs_output, rhs_output) of
        (Some l, Some r) \<Rightarrow>
          connector = ''-'' \<and>
          f_internal_type l \<in> {''DateField'', ''DateTimeField'', ''TimeField''} \<and>
          f_internal_type l = f_internal_type r
      | _ \<Rightarrow> False)"

text \<open>\<^verbatim>\<open>CombinedExpression.as_sql\<close>.\<close>

definition CombinedExpression_as_sql ::
  "nat \<Rightarrow> 'q env \<Rightarrow> compiler \<Rightarrow> connection \<Rightarrow> comb_cls \<Rightarrow> base \<Rightarrow> expr \<Rightarrow> string \<Rightarrow> expr
    \<Rightarrow> expr \<times> (error + sql)"
where
  "CombinedExpression_as_sql n env cmp conn cls b lhs connector rhs =
     (case try_output_field n env lhs of
        (lhs1, Inl e) \<Rightarrow> (CombinedExpression cls b lhs1 connector rhs, Inl e)
      | (lhs1, Inr lhs_output) \<Rightarrow>
          (case try_output_field n env rhs of
             (rhs1, Inl e) \<Rightarrow> (CombinedExpression cls b lhs1 connector rhs1, Inl e)
           | (rhs1, Inr rhs_output) \<Rightarrow>
               if duration_case conn lhs_output rhs_output
               then (case DurationExpression_as_sql n env cmp conn (new_base None) lhs1 connector rhs1 of
                       ((lhs2, rhs2), r) \<Rightarrow> (CombinedExpression cls b lhs2 connector rhs2, r))
               else if temporal_case connector lhs_output rhs_output
               then (case TemporalSubtraction_as_sql n env cmp conn (new_base (Some DurationField))
                            lhs1 rhs1 of
                       ((lhs2, rhs2), r) \<Rightarrow> (CombinedExpression cls b lhs2 connector rhs2, r))
               else
                 (case compile cmp lhs1 of
                    (lhs2, Inl e) \<Rightarrow> (CombinedExpression cls b lhs2 connector rhs1, Inl e)
                  | (lhs2, Inr (lsql, lparams)) \<Rightarrow>
                      (case compile cmp rhs1 of
                         (rhs2, Inl e) \<Rightarrow> (CombinedExpression cls b lhs2 connector rhs2, Inl e)
                       | (rhs2, Inr (rsql, rparams)) \<Rightarrow>
                           (CombinedExpression cls b lhs2 connector rhs2,
                            Inr (''('' @ combine_expression conn connector [lsql, rsql] @ '')'',
                                 lparams @ rparams))))))"

text \<open>\<^verbatim>\<open>When.as_sql(compiler, connection, template=None, **extra_context)\<close>; a
  dictionary is an association list whose first entry for a key is the current one.\<close>

definition When_template :: string where
  "When_template = ''WHEN %(condition)s THEN %(result)s''"

definition When_as_sql ::
  "compiler \<Rightarrow> connection \<Rightarrow> string option \<Rightarrow> (string \<times> string) list \<Rightarrow> base \<Rightarrow> expr \<Rightarrow> expr
    \<Rightarrow> expr \<times> (error + sql)"
where
  "When_as_sql cmp conn template extra_context b condition result =
     (case check_expression_support conn (When b condition result) of
        Some e \<Rightarrow> (When b condition result, Inl e)
      | None \<Rightarrow>
          (case compile cmp condition of
             (condition', Inl e) \<Rightarrow> (When b condition' result, Inl e)
           | (condition', Inr (condition_sql, condition_params)) \<Rightarrow>
               (case compile cmp result of
                  (result', Inl e) \<Rightarrow> (When b condition' result', Inl e)
                | (result', Inr (result_sql, result_params)) \<Rightarrow>
                    (case format_dict
                            (case template of None \<Rightarrow> When_template
                             | Some t \<Rightarrow> if t = [] then When_template else t)
                            ((''result'', result_sql) # (''condition'', condition_sql) # extra_context) of
                       Inl e \<Rightarrow> (When b condition' result', Inl e)
                     | Inr sql \<Rightarrow>
                         (When b condition' result', Inr (sql, condition_params @ result_params))))))"

text \<open>The loop of \<^verbatim>\<open>Case.as_sql\<close> over \<^verbatim>\<open>self.cases\<close>: a case whose compilation
  raises \<^verbatim>\<open>EmptyResultSet\<close> is passed over, any other exception leaves the loop.\<close>

fun compile_cases ::
  "compiler \<Rightarrow> expr list \<Rightarrow> expr list \<times> (error + string list \<times> pyval list)" where
  "compile_cases cmp [] = ([], Inr ([], []))"
| "compile_cases cmp (c # cs) =
     (case compile cmp c of
        (c', Inl EmptyResultSet) \<Rightarrow>
          (case compile_cases cmp cs of (cs', r) \<Rightarrow> (c' # cs', r))
      | (c', Inl e) \<Rightarrow> (c' # cs, Inl e)
      | (c', Inr (case_sql, case_params)) \<Rightarrow>
          (case compile_cases cmp cs of
             (cs', Inl e) \<Rightarrow> (c' # cs', Inl e)
           | (cs', Inr (case_parts, sql_params)) \<Rightarrow>
               (c' # cs', Inr (case_sql # case_parts, case_params @ sql_params))))"

definition Case_template :: string where
  "Case_template = ''CASE %(cases)s ELSE %(default)s END''"

text \<open>\<^verbatim>\<open>Case.as_sql(compiler, connection, template=None, case_joiner=None,
  **extra_context)\<close>.\<close>

definition Case_as_sql ::
  "nat \<Rightarrow> 'q env \<Rightarrow> compiler \<Rightarrow> connection \<Rightarrow> string option \<Rightarrow> string option
    \<Rightarrow> (string \<times> string) list \<Rightarrow> base \<Rightarrow> expr list \<Rightarrow> expr \<Rightarrow> (string \<times> string) list
    \<Rightarrow> expr \<times> (error + sql)"
where
  "Case_as_sql n env cmp conn template case_joiner extra_context b cases dflt extra =
     (case check_expression_support conn (Case b cases dflt extra) of
        Some e \<Rightarrow> (Case b cases dflt extra, Inl e)
      | None \<Rightarrow>
          if cases = [] then (case compile cmp dflt of (dflt', r) \<Rightarrow> (Case b cases dflt' extra, r))
          else
            (case compile_cases cmp cases of
               (cases', Inl e) \<Rightarrow> (Case b cases' dflt extra, Inl e)
             | (cases', Inr (case_parts, sql_params)) \<Rightarrow>
                 (case compile cmp dflt of
                    (dflt', Inl e) \<Rightarrow> (Case b cases' dflt' extra, Inl e)
                  | (dflt', Inr (default_sql, default_params)) \<Rightarrow>
                      if case_parts = [] then (Case b cases' dflt' extra, Inr (default_sql, default_params))
                      else
                        (let template_params =
                               (''default'', default_sql) #
                               (''cases'', join (case case_joiner of None \<Rightarrow> '' ''
                                                 | Some j \<Rightarrow> if j = [] then '' '' else j) case_parts) #
                               extra_context @ extra;
                             template' =
                               (case template of
                                  Some t \<Rightarrow> if t = [] then
                                      (case map_of template_params ''template'' of
                                         None \<Rightarrow> Case_template | Some t' \<Rightarrow> t') else t
                                | None \<Rightarrow>
                                    (case map_of template_params ''template'' of
                                       None \<Rightarrow> Case_template | Some t' \<Rightarrow> t'))
                         in case format_dict template' template_params of
                              Inl e \<Rightarrow> (Case b cases' dflt' extra, Inl e)
                            | Inr sql \<Rightarrow>
                                (case output_field_or_none n env (Case b cases' dflt' extra) of
                                   (self1, Inl e) \<Rightarrow> (self1, Inl e)
                                 | (self1, Inr None) \<Rightarrow> (self1, Inr (sql, sql_params @ default_params))
                                 | (self1, Inr (Some f0)) \<Rightarrow>
                                     (case output_field n env self1 of
                                        (self2, Inl e) \<Rightarrow> (self2, Inl e)
                                      | (self2, Inr f) \<Rightarrow>
                                          (case format_one sql False (unification_cast_sql conn f) of
                                             Inl e \<Rightarrow> (self2, Inl e)
                                           | Inr sql' \<Rightarrow>
                                               (self2, Inr (sql', sql_params @ default_params)))))))))"

subsection \<open>contains_aggregate and get_group_by_cols\<close>

text \<open>
  \<^verbatim>\<open>contains_aggregate\<close>: the loop \<^verbatim>\<open>if expr and expr.contains_aggregate: return
  True\<close> over the source expressions, with \<open>ca\<close> the attribute access on a source.  The
  value is computed from the sources as they are; the cell in which \<^verbatim>\<open>cached_property\<close>
  keeps it is left out, so the model is that of a node whose sources have not been replaced
  since the attribute was first read.
\<close>

fun any_aggregate :: "'q env \<Rightarrow> (expr \<Rightarrow> error + bool) \<Rightarrow> expr list \<Rightarrow> error + bool" where
  "any_aggregate env ca [] = Inr False"
| "any_aggregate env ca (x # xs) =
     (if truthy env x
      then (case ca x of
              Inl e \<Rightarrow> Inl e
            | Inr True \<Rightarrow> Inr True
            | Inr False \<Rightarrow> any_aggregate env ca xs)
      else any_aggregate env ca xs)"

definition contains_aggregate_step :: "'q env \<Rightarrow> (expr \<Rightarrow> error + bool) \<Rightarrow> expr \<Rightarrow> error + bool" where
  "contains_aggregate_step env ca e =
     (case e of
        Opaque k \<Rightarrow> opq_contains_aggregate env k
      | _ \<Rightarrow>
        (case base_of e of
           None \<Rightarrow> Inl AttributeError
         | Some b \<Rightarrow>
             (case get_source_expressions env e of
                Inl err \<Rightarrow> Inl err
              | Inr sources \<Rightarrow> any_aggregate env ca sources)))"

primrec contains_aggregate :: "nat \<Rightarrow> 'q env \<Rightarrow> expr \<Rightarrow> error + bool" where
  "contains_aggregate 0 env = (\<lambda>e. Inl RecursionError)"
| "contains_aggregate (Suc n) env = contains_aggregate_step env (contains_aggregate n env)"

text \<open>\<^verbatim>\<open>cols.extend(source.get_group_by_cols())\<close> over the sources, with \<open>gbc\<close> the
  method call on a source.\<close>

fun extend_cols :: "(expr \<Rightarrow> error + expr list) \<Rightarrow> expr list \<Rightarrow> error + expr list" where
  "extend_cols gbc [] = Inr []"
| "extend_cols gbc (source # sources) =
     (case gbc source of
        Inl e \<Rightarrow> Inl e
      | Inr cols \<Rightarrow>
          (case extend_cols gbc sources of Inl e \<Rightarrow> Inl e | Inr cols' \<Rightarrow> Inr (cols @ cols')))"

text \<open>
  \<^verbatim>\<open>get_group_by_cols\<close>: \<^verbatim>\<open>Value\<close>, \<^verbatim>\<open>RawSQL\<close>, \<^verbatim>\<open>Col\<close>, \<^verbatim>\<open>Ref\<close>, \<^verbatim>\<open>When\<close>
  and \<^verbatim>\<open>OrderBy\<close> override it; \<^verbatim>\<open>F\<close> and its subclasses have none; the other classes
  have \<^verbatim>\<open>BaseExpression\<close>'s.
\<close>

fun get_group_by_cols_step ::
  "nat \<Rightarrow> 'q env \<Rightarrow> (expr \<Rightarrow> error + expr list) \<Rightarrow> expr \<Rightarrow> error + expr list" where
  "get_group_by_cols_step m env gbc (Value cls b v fs) = Inr []"
| "get_group_by_cols_step m env gbc (RawSQL b sql params) = Inr [RawSQL b sql params]"
| "get_group_by_cols_step m env gbc (Col b alias target) = Inr [Col b alias target]"
| "get_group_by_cols_step m env gbc (Ref b refs source) = Inr [Ref b refs source]"
| "get_group_by_cols_step m env gbc (When b condition result) = extend_cols gbc [condition, result]"
| "get_group_by_cols_step m env gbc (OrderBy b expression descending nulls_first nulls_last) =
     extend_cols gbc [expression]"
| "get_group_by_cols_step m env gbc (F name) = Inl AttributeError"
| "get_group_by_cols_step m env gbc (ResolvedOuterRef name) = Inl AttributeError"
| "get_group_by_cols_step m env gbc (OuterRef name) = Inl AttributeError"
| "get_group_by_cols_step m env gbc (Opaque k) = opq_group_by_cols env k"
| "get_group_by_cols_step m env gbc e =
     (case contains_aggregate m env e of
        Inl err \<Rightarrow> Inl err
      | Inr False \<Rightarrow> Inr [e]
      | Inr True \<Rightarrow>
          (case get_source_expressions env e of
             Inl err \<Rightarrow> Inl err
           | Inr sources \<Rightarrow> extend_cols gbc sources))"

text \<open>The first argument bounds the depth of the calls of \<^verbatim>\<open>get_group_by_cols\<close>, the
  second that of the accesses to \<^verbatim>\<open>contains_aggregate\<close>.\<close>

primrec get_group_by_cols :: "nat \<Rightarrow> nat \<Rightarrow> 'q env \<Rightarrow> expr \<Rightarrow> error + expr list" where
  "get_group_by_cols 0 m env = (\<lambda>e. Inl RecursionError)"
| "get_group_by_cols (Suc n) m env = get_group_by_cols_step m env (get_group_by_cols n m env)"


subsection \<open>A query and a connection to evaluate on\<close>

text \<open>
  A query with one table \<^verbatim>\<open>T1\<close> whose every reference resolves to the column \<^verbatim>\<open>id\<close>
  of that table, which leaves nested queries as they are, and in which the opaque object
  \<open>0\<close> is an aggregate without group-by columns and every other opaque object a plain
  expression that resolves to itself.
\<close>

definition id_field :: dbfield where
  "id_field = \<lparr>f_class = ''AutoField'', f_bases = [''Field''],
     f_internal_type = ''AutoField'', f_column = ''id'', f_has_placeholder = False\<rparr>"

definition example_env :: "unit env" where
  "example_env =
     \<lparr>resolve_ref = (\<lambda>q name aj ru s. (Inr (Col (new_base (Some id_field)) ''T1'' id_field), q)),
      bump_prefix = (\<lambda>q qs. qs),
      opq_has_resolve = (\<lambda>k. True),
      opq_resolve = (\<lambda>q k a. (Inr (Opaque k), q)),
      opq_alias = (\<lambda>k. None),
      opq_truthy = (\<lambda>k. True),
      opq_sources = (\<lambda>k. Inr []),
      opq_contains_aggregate = (\<lambda>k. Inr (k = 0)),
      opq_group_by_cols = (\<lambda>k. if k = 0 then Inr [] else Inr [Opaque k]),
      opq_output_field_or_none = (\<lambda>k. Inr None)\<rparr>"

text \<open>The default arguments of \<^verbatim>\<open>resolve_expression\<close>, passed by keyword.\<close>

definition keyword_args :: resolve_args where
  "keyword_args =
     \<lparr>allow_joins = True, reuse = None, summarize = False, for_save = False, by_position = False\<rparr>"

text \<open>A connection with native durations that supports every expression, combines with
  the generic builder, casts nothing and prepares values as they are.\<close>

definition example_connection :: connection where
  "example_connection =
     \<lparr>has_native_duration_field = True,
      check_expression_support = (\<lambda>e. None),
      combine_expression = generic_combine_expression,
      combine_duration_expression = (\<lambda>connector subs. Inr (generic_combine_expression connector subs)),
      format_for_duration_arithmetic = (\<lambda>sql. Inl NotImplementedError),
      subtract_temporals = (\<lambda>t l r. Inl NotSupportedError),
      date_interval_sql = (\<lambda>v. Inl NotImplementedError),
      unification_cast_sql = (\<lambda>f. ''%s''),
      get_db_prep_value = (\<lambda>f v. v),
      get_db_prep_save = (\<lambda>f v. v),
      get_placeholder = (\<lambda>f v. ''%s'')\<rparr>"

text \<open>
  A compiler that renders a \<^verbatim>\<open>Value\<close> by its \<^verbatim>\<open>as_sql\<close>, for which the opaque
  object \<open>2\<close> is a condition on the column and every other opaque object a condition that
  matches no row, and which supports nothing else; and the compiler that renders a
  \<^verbatim>\<open>When\<close> by its \<^verbatim>\<open>as_sql\<close> over the first one.
\<close>

definition value_compiler :: compiler where
  "value_compiler =
     \<lparr>compile = (\<lambda>e. case e of
          Value cls b v fs \<Rightarrow>
            Value_as_sql 1 example_env
              \<lparr>compile = (\<lambda>e. (e, Inl NotImplementedError)),
               compile_select = (\<lambda>e. (e, Inl NotImplementedError))\<rparr>
              example_connection cls b v fs
        | Opaque k \<Rightarrow>
            if k = 2 then (e, Inr (''T1.id > %s'', [PInt 0])) else (e, Inl EmptyResultSet)
        | _ \<Rightarrow> (e, Inl NotImplementedError)),
      compile_select = (\<lambda>e. (e, Inl NotImplementedError))\<rparr>"

definition example_compiler :: compiler where
  "example_compiler =
     \<lparr>compile = (\<lambda>e. case e of
          When b condition result \<Rightarrow>
            When_as_sql value_compiler example_connection None [] b condition result
        | _ \<Rightarrow> compile value_compiler e),
      compile_select = (\<lambda>e. (e, Inl NotImplementedError))\<rparr>"

subsection \<open>Classes by the method they inherit\<close>

text \<open>The classes whose \<^verbatim>\<open>get_group_by_cols\<close> is \<^verbatim>\<open>BaseExpression\<close>'s.\<close>

fun inherits_get_group_by_cols :: "expr \<Rightarrow> bool" where
  "inherits_get_group_by_cols (CombinedExpression cls b lhs connector rhs) = True"
| "inherits_get_group_by_cols (Func b name source_expressions extra) = True"
| "inherits_get_group_by_cols (Star b) = True"
| "inherits_get_group_by_cols (Random b) = True"
| "inherits_get_group_by_cols (ExpressionWrapper b expression) = True"
| "inherits_get_group_by_cols (Case b cases dflt extra) = True"
| "inherits_get_group_by_cols (Subquery b qs extra) = True"
| "inherits_get_group_by_cols (Exists b qs extra negated) = True"
| "inherits_get_group_by_cols _ = False"

fun is_Exists :: "expr \<Rightarrow> bool" where
  "is_Exists (Exists b qs extra negated) = True"
| "is_Exists _ = False"

fun is_Ref :: "expr \<Rightarrow> bool" where
  "is_Ref (Ref b refs source) = True"
| "is_Ref _ = False"

subsection \<open>Measures used in the properties\<close>

text \<open>The number of source expressions of a subquery over a queryset, when its
  \<^verbatim>\<open>where\<close> has children.\<close>

definition where_count :: "'q env \<Rightarrow> queryset \<Rightarrow> nat option" where
  "where_count env qs =
     (case qs_where qs of WhereNode cs \<Rightarrow> Some (length (where_lhs env cs)) | _ \<Rightarrow> None)"

text \<open>The source fields that are not \<^verbatim>\<open>None\<close>, in order.\<close>

fun typed_sources :: "dbfield option list \<Rightarrow> dbfield list" where
  "typed_sources [] = []"
| "typed_sources (None # sources) = typed_sources sources"
| "typed_sources (Some f # sources) = f # typed_sources sources"

section \<open>Properties\<close>

subsection \<open>Rendering a resolved outer reference\<close>

text \<open>
  C7: for every \<^verbatim>\<open>ResolvedOuterRef\<close> and every compiler and connection, \<^verbatim>\<open>as_sql\<close>
  raises (\<^verbatim>\<open>ValueError\<close>) instead of producing SQL, and leaves the node as it was.
\<close>

theorem resolved_outer_ref_as_sql_raises:
  "ResolvedOuterRef_as_sql cmp conn name = (ResolvedOuterRef name, Inl ValueError)"
  by (simp add: ResolvedOuterRef_as_sql_def)

subsection \<open>The output field of Exists\<close>

text \<open>
  C10: the output field of an \<^verbatim>\<open>Exists\<close> node is a \<^verbatim>\<open>BooleanField\<close>, whatever its
  attributes and its queryset are and whatever \<^verbatim>\<open>output_field\<close> was given to the
  constructor; in particular the field of a single selected column, which
  \<^verbatim>\<open>Subquery.__init__\<close> stores in \<^verbatim>\<open>_output_field\<close>, is not what the property returns.
\<close>

theorem exists_output_field_is_boolean:
  "snd (output_field n env (Exists b qs extra negated)) = Inr BooleanField \<and>
   snd (output_field n env (Exists_init qs output_field_arg negated extra)) = Inr BooleanField \<and>
   snd (output_field n env
          (Exists_init (QuerySet [f] ord w ext anns rest) None negated extra)) = Inr BooleanField \<and>
   base_of (Exists_init (QuerySet [f] ord w ext anns rest) None negated extra) = Some (new_base (Some f))"
  by (simp add: output_field_def Exists_init_def)

subsection \<open>Constructing an OrderBy\<close>

text \<open>
  C9: \<^verbatim>\<open>OrderBy(expression, descending, nulls_first=True, nulls_last=True)\<close> raises
  (\<^verbatim>\<open>ValueError\<close>) in the constructor, whatever is wrapped; with at most one of the two
  flags set, the construction around an expression returns the node.
\<close>

theorem orderby_init_nulls_exclusive:
  "OrderBy_init env x descending True True = Inl ValueError \<and>
   (\<not> (nulls_first \<and> nulls_last) \<and> has_resolve_expression env e \<longrightarrow>
      OrderBy_init env (PyExpr e) descending nulls_first nulls_last =
        Inr (OrderBy (new_base None) e descending nulls_first nulls_last))"
  by (simp add: OrderBy_init_def)

theorem orderby_init_nulls_exclusive_witness:
  "OrderBy_init example_env (PyExpr (F (PyVal (PStr ''name'')))) True True True = Inl ValueError \<and>
   \<not> (True \<and> False) \<and> has_resolve_expression example_env (F (PyVal (PStr ''name''))) \<and>
   OrderBy_init example_env (PyExpr (F (PyVal (PStr ''name'')))) True True False =
     Inr (OrderBy (new_base None) (F (PyVal (PStr ''name''))) True True False)"
  using orderby_init_nulls_exclusive [of example_env "PyExpr (F (PyVal (PStr ''name'')))" True
      True False "F (PyVal (PStr ''name''))"]
  by simp

subsection \<open>Resolving outer references\<close>

text \<open>
  C6 as stated fails: \<^verbatim>\<open>ResolvedOuterRef\<close> inherits \<^verbatim>\<open>F.resolve_expression\<close>, so
  resolving the resolved reference to \<^verbatim>\<open>id\<close> against the example query returns the
  column of the query, not the reference.
\<close>

theorem resolved_outer_ref_resolve_counterexample:
  "fst (snd (resolve_expression 1 example_env keyword_args ()
               (ResolvedOuterRef (PyVal (PStr ''id'')))))
   \<noteq> Inr (ResolvedOuterRef (PyVal (PStr ''id'')))"
  by (simp add: example_env_def keyword_args_def)

text \<open>
  C6 amended: resolving a \<^verbatim>\<open>ResolvedOuterRef\<close> returns what the query's
  \<^verbatim>\<open>resolve_ref\<close> returns for its name and leaves the reference itself as it was; what
  returns its argument unchanged, without a call to the query, is the resolution of an
  \<^verbatim>\<open>OuterRef\<close> whose name is itself an \<^verbatim>\<open>OuterRef\<close>: that inner reference is
  returned.  An \<^verbatim>\<open>OuterRef\<close> of a plain name resolves to the \<^verbatim>\<open>ResolvedOuterRef\<close> of
  the name.
\<close>

theorem outer_ref_resolution:
  "resolve_expression (Suc n) env a q (ResolvedOuterRef name) =
     (ResolvedOuterRef name,
      fst (resolve_ref env q name (allow_joins a) (reuse a) (summarize a)),
      snd (resolve_ref env q name (allow_joins a) (reuse a) (summarize a))) \<and>
   resolve_expression (Suc n) env a q (OuterRef (PyExpr (OuterRef inner))) =
     (OuterRef (PyExpr (OuterRef inner)), Inr (OuterRef inner), q) \<and>
   resolve_expression (Suc n) env a q (OuterRef (PyVal v)) =
     (OuterRef (PyVal v), Inr (ResolvedOuterRef (PyVal v)), q)"
  by (simp split: prod.splits)


subsection \<open>Group-by columns\<close>

lemma extend_cols_concat:
  "list_all2 (\<lambda>x c. gbc x = Inr c) xs cs \<Longrightarrow> extend_cols gbc xs = Inr (concat cs)"
  by (induction xs cs rule: list_all2_induct) simp_all

lemma inherited_group_by_cols:
  "inherits_get_group_by_cols N \<Longrightarrow>
   get_group_by_cols (Suc n) m env N =
     (case contains_aggregate m env N of
        Inl err \<Rightarrow> Inl err
      | Inr False \<Rightarrow> Inr [N]
      | Inr True \<Rightarrow>
          (case get_source_expressions env N of
             Inl err \<Rightarrow> Inl err
           | Inr sources \<Rightarrow> extend_cols (get_group_by_cols n m env) sources))"
  by (cases N) auto

text \<open>
  C8 as stated fails: a \<^verbatim>\<open>Value\<close> contains no aggregate, and its
  \<^verbatim>\<open>get_group_by_cols\<close> returns the empty list, not the list of the node.
\<close>

theorem value_group_by_cols_counterexample:
  "contains_aggregate 1 example_env (Value PlainValue (new_base None) (PInt 1) None) = Inr False \<and>
   get_group_by_cols 1 1 example_env (Value PlainValue (new_base None) (PInt 1) None)
     \<noteq> Inr [Value PlainValue (new_base None) (PInt 1) None]"
  by (simp add: contains_aggregate_step_def)

text \<open>
  C8 amended: for every node \<open>N\<close> of a class that inherits
  \<^verbatim>\<open>BaseExpression.get_group_by_cols\<close> (\<^verbatim>\<open>CombinedExpression\<close>, \<^verbatim>\<open>Func\<close>, \<^verbatim>\<open>Star\<close>,
  \<^verbatim>\<open>Random\<close>, \<^verbatim>\<open>ExpressionWrapper\<close>, \<^verbatim>\<open>Case\<close>, \<^verbatim>\<open>Subquery\<close>, \<^verbatim>\<open>Exists\<close>) the
  method returns \<open>[N]\<close> when \<open>N\<close> contains no aggregate and the concatenation of the
  group-by columns of its source expressions, in order, when it contains one.  The classes
  that override the method do not look at aggregates: \<^verbatim>\<open>Value\<close> returns the empty list,
  \<^verbatim>\<open>RawSQL\<close>, \<^verbatim>\<open>Col\<close> and \<^verbatim>\<open>Ref\<close> return the list of the node, \<^verbatim>\<open>When\<close> and
  \<^verbatim>\<open>OrderBy\<close> the concatenation of the columns of their sources.
\<close>

theorem group_by_cols_by_class:
  "(inherits_get_group_by_cols N \<and> contains_aggregate m env N = Inr False \<longrightarrow>
      get_group_by_cols (Suc n) m env N = Inr [N]) \<and>
   (inherits_get_group_by_cols N \<and> contains_aggregate m env N = Inr True \<and>
    get_source_expressions env N = Inr sources \<and>
    list_all2 (\<lambda>x c. get_group_by_cols n m env x = Inr c) sources cols \<longrightarrow>
      get_group_by_cols (Suc n) m env N = Inr (concat cols)) \<and>
   get_group_by_cols (Suc n) m env (Value cls b v fs) = Inr [] \<and>
   get_group_by_cols (Suc n) m env (RawSQL b sql params) = Inr [RawSQL b sql params] \<and>
   get_group_by_cols (Suc n) m env (Col b alias target) = Inr [Col b alias target] \<and>
   get_group_by_cols (Suc n) m env (Ref b refs source) = Inr [Ref b refs source] \<and>
   (list_all2 (\<lambda>x c. get_group_by_cols n m env x = Inr c) [condition, result] cols' \<longrightarrow>
      get_group_by_cols (Suc n) m env (When b condition result) = Inr (concat cols')) \<and>
   (list_all2 (\<lambda>x c. get_group_by_cols n m env x = Inr c) [expression] cols'' \<longrightarrow>
      get_group_by_cols (Suc n) m env (OrderBy b expression descending nulls_first nulls_last) =
        Inr (concat cols''))"
  by (simp add: inherited_group_by_cols extend_cols_concat del: get_group_by_cols.simps extend_cols.simps)
     (auto simp: extend_cols_concat simp del: extend_cols.simps)

theorem group_by_cols_by_class_witness:
  "inherits_get_group_by_cols (Star (new_base None)) \<and>
   contains_aggregate 1 example_env (Star (new_base None)) = Inr False \<and>
   get_group_by_cols 1 1 example_env (Star (new_base None)) = Inr [Star (new_base None)] \<and>
   inherits_get_group_by_cols
     (Func (new_base None) ''Coalesce'' [Opaque 0, Col (new_base (Some id_field)) ''T1'' id_field] []) \<and>
   contains_aggregate 2 example_env
     (Func (new_base None) ''Coalesce'' [Opaque 0, Col (new_base (Some id_field)) ''T1'' id_field] [])
     = Inr True \<and>
   list_all2 (\<lambda>x c. get_group_by_cols 1 2 example_env x = Inr c)
     [Opaque 0, Col (new_base (Some id_field)) ''T1'' id_field]
     [[], [Col (new_base (Some id_field)) ''T1'' id_field]] \<and>
   get_group_by_cols 2 2 example_env
     (Func (new_base None) ''Coalesce'' [Opaque 0, Col (new_base (Some id_field)) ''T1'' id_field] [])
     = Inr [Col (new_base (Some id_field)) ''T1'' id_field] \<and>
   list_all2 (\<lambda>x c. get_group_by_cols 1 2 example_env x = Inr c)
     [Opaque 1, Col (new_base (Some id_field)) ''T1'' id_field]
     [[Opaque 1], [Col (new_base (Some id_field)) ''T1'' id_field]] \<and>
   get_group_by_cols 2 2 example_env
     (When (new_base None) (Opaque 1) (Col (new_base (Some id_field)) ''T1'' id_field))
     = Inr [Opaque 1, Col (new_base (Some id_field)) ''T1'' id_field] \<and>
   list_all2 (\<lambda>x c. get_group_by_cols 1 2 example_env x = Inr c)
     [Col (new_base (Some id_field)) ''T1'' id_field]
     [[Col (new_base (Some id_field)) ''T1'' id_field]] \<and>
   get_group_by_cols 2 2 example_env
     (OrderBy (new_base None) (Col (new_base (Some id_field)) ''T1'' id_field) True False False)
     = Inr [Col (new_base (Some id_field)) ''T1'' id_field]"
  using
    group_by_cols_by_class [where N = "Star (new_base None)" and m = 1 and env = example_env
      and n = 0]
    group_by_cols_by_class [where
      N = "Func (new_base None) ''Coalesce'' [Opaque 0, Col (new_base (Some id_field)) ''T1'' id_field] []"
      and m = 2 and env = example_env and n = 1
      and sources = "[Opaque 0, Col (new_base (Some id_field)) ''T1'' id_field]"
      and cols = "[[], [Col (new_base (Some id_field)) ''T1'' id_field]]"
      and condition = "Opaque 1" and result = "Col (new_base (Some id_field)) ''T1'' id_field"
      and cols' = "[[Opaque 1], [Col (new_base (Some id_field)) ''T1'' id_field]]"
      and expression = "Col (new_base (Some id_field)) ''T1'' id_field"
      and cols'' = "[[Col (new_base (Some id_field)) ''T1'' id_field]]"
      and b = "new_base None" and descending = True and nulls_first = False and nulls_last = False]
  by (simp add: contains_aggregate_step_def example_env_def numeral_2_eq_2)

subsection \<open>Rendering a combined expression\<close>

text \<open>
  C5: \<^verbatim>\<open>CombinedExpression(Value(3), '+', Value(4))\<close> renders as \<^verbatim>\<open>(%s + %s)\<close> with the
  parameters 3 and 4, for a compiler that renders a \<^verbatim>\<open>Value\<close> by its \<^verbatim>\<open>as_sql\<close> and a
  connection that supports the expressions and has the generic builder.  In general, when
  neither the duration case nor the temporal subtraction applies, the rendering compiles
  the left then the right operand, joins the two fragments with the connection's
  \<^verbatim>\<open>combine_expression\<close>, puts the result in parentheses, and returns the parameters of
  the left operand followed by those of the right.
\<close>

theorem combined_expression_as_sql:
  "((\<forall>cls b v fs. compile cmp (Value cls b v fs) = Value_as_sql k env cmp conn cls b v fs) \<and>
    (\<forall>e. check_expression_support conn e = None) \<and>
    combine_expression conn = generic_combine_expression \<longrightarrow>
      snd (CombinedExpression_as_sql (Suc n) env cmp conn Plain (new_base None)
             (Value PlainValue (new_base None) (PInt 3) None) ''+''
             (Value PlainValue (new_base None) (PInt 4) None))
        = Inr (''(%s + %s)'', [PInt 3, PInt 4])) \<and>
   (try_output_field n' env lhs = (lhs_a, Inr lhs_output) \<and>
    try_output_field n' env rhs = (rhs_a, Inr rhs_output) \<and>
    \<not> duration_case conn lhs_output rhs_output \<and>
    \<not> temporal_case connector lhs_output rhs_output \<and>
    compile cmp lhs_a = (lhs_b, Inr (lsql, lparams)) \<and>
    compile cmp rhs_a = (rhs_b, Inr (rsql, rparams)) \<longrightarrow>
      CombinedExpression_as_sql n' env cmp conn cls' b' lhs connector rhs =
        (CombinedExpression cls' b' lhs_b connector rhs_b,
         Inr (''('' @ combine_expression conn connector [lsql, rsql] @ '')'', lparams @ rparams)))"
proof (intro conjI impI)
  assume "(\<forall>cls b v fs. compile cmp (Value cls b v fs) = Value_as_sql k env cmp conn cls b v fs) \<and>
    (\<forall>e. check_expression_support conn e = None) \<and>
    combine_expression conn = generic_combine_expression"
  then show "snd (CombinedExpression_as_sql (Suc n) env cmp conn Plain (new_base None)
             (Value PlainValue (new_base None) (PInt 3) None) ''+''
             (Value PlainValue (new_base None) (PInt 4) None))
        = Inr (''(%s + %s)'', [PInt 3, PInt 4])"
    by (simp add: CombinedExpression_as_sql_def try_output_field_def output_field_def
        output_field_or_none_step_def new_base_def Value_as_sql_def Value_as_sql_body_def
        value_sql_def duration_case_def temporal_case_def generic_combine_expression_def)
next
  assume "try_output_field n' env lhs = (lhs_a, Inr lhs_output) \<and>
    try_output_field n' env rhs = (rhs_a, Inr rhs_output) \<and>
    \<not> duration_case conn lhs_output rhs_output \<and>
    \<not> temporal_case connector lhs_output rhs_output \<and>
    compile cmp lhs_a = (lhs_b, Inr (lsql, lparams)) \<and>
    compile cmp rhs_a = (rhs_b, Inr (rsql, rparams))"
  then show "CombinedExpression_as_sql n' env cmp conn cls' b' lhs connector rhs =
        (CombinedExpression cls' b' lhs_b connector rhs_b,
         Inr (''('' @ combine_expression conn connector [lsql, rsql] @ '')'', lparams @ rparams))"
    by (simp add: CombinedExpression_as_sql_def)
qed


theorem combined_expression_as_sql_witness:
  "(\<forall>cls b v fs. compile example_compiler (Value cls b v fs)
      = Value_as_sql 1 example_env example_compiler example_connection cls b v fs) \<and>
   (\<forall>e. check_expression_support example_connection e = None) \<and>
   combine_expression example_connection = generic_combine_expression \<and>
   snd (CombinedExpression_as_sql 1 example_env example_compiler example_connection Plain (new_base None)
          (Value PlainValue (new_base None) (PInt 3) None) ''+''
          (Value PlainValue (new_base None) (PInt 4) None))
     = Inr (''(%s + %s)'', [PInt 3, PInt 4]) \<and>
   try_output_field 1 example_env (Value PlainValue (new_base None) (PInt 3) None) =
     (Value PlainValue ((new_base None)\<lparr>cached_output_field_or_none := Some None\<rparr>) (PInt 3) None,
      Inr None) \<and>
   try_output_field 1 example_env (Value PlainValue (new_base None) PNone None) =
     (Value PlainValue ((new_base None)\<lparr>cached_output_field_or_none := Some None\<rparr>) PNone None,
      Inr None) \<and>
   \<not> duration_case example_connection None None \<and>
   \<not> temporal_case ''-'' None None \<and>
   compile example_compiler
       (Value PlainValue ((new_base None)\<lparr>cached_output_field_or_none := Some None\<rparr>) (PInt 3) None) =
     (Value PlainValue ((new_base None)\<lparr>cached_output_field_or_none := Some None\<rparr>) (PInt 3) None,
      Inr (''%s'', [PInt 3])) \<and>
   compile example_compiler
       (Value PlainValue ((new_base None)\<lparr>cached_output_field_or_none := Some None\<rparr>) PNone None) =
     (Value PlainValue ((new_base None)\<lparr>cached_output_field_or_none := Some None\<rparr>) PNone None,
      Inr (''NULL'', [])) \<and>
   snd (CombinedExpression_as_sql 1 example_env example_compiler example_connection Plain (new_base None)
          (Value PlainValue (new_base None) (PInt 3) None) ''-''
          (Value PlainValue (new_base None) PNone None))
     = Inr (''(%s - NULL)'', [PInt 3])"
  using
    combined_expression_as_sql [where cmp = example_compiler and k = 1 and env = example_env
      and conn = example_connection and n = 0 and n' = 1
      and lhs = "Value PlainValue (new_base None) (PInt 3) None"
      and rhs = "Value PlainValue (new_base None) PNone None"
      and lhs_a = "Value PlainValue ((new_base None)\<lparr>cached_output_field_or_none := Some None\<rparr>) (PInt 3) None"
      and rhs_a = "Value PlainValue ((new_base None)\<lparr>cached_output_field_or_none := Some None\<rparr>) PNone None"
      and lhs_b = "Value PlainValue ((new_base None)\<lparr>cached_output_field_or_none := Some None\<rparr>) (PInt 3) None"
      and rhs_b = "Value PlainValue ((new_base None)\<lparr>cached_output_field_or_none := Some None\<rparr>) PNone None"
      and lhs_output = None and rhs_output = None and connector = "''-''"
      and lsql = "''%s''" and lparams = "[PInt 3]" and rsql = "''NULL''" and rparams = "[]"
      and cls' = Plain and b' = "new_base None"]
  by (simp add: example_compiler_def example_connection_def try_output_field_def output_field_def
      output_field_or_none_step_def new_base_def Value_as_sql_def Value_as_sql_body_def value_sql_def
      value_compiler_def duration_case_def temporal_case_def generic_combine_expression_def)


end
